theory Spec2Isabelle
  imports Main "HOL-Library.Word"
begin

unbundle bit_operations_syntax

section \<open>The cartridge dump script \<^verbatim>\<open>dump.py\<close>\<close>

text \<open>
  \<^verbatim>\<open>dump.py\<close> is a straight-line script: it parses its command line, opens the
  serial port and the output file, sends \<^verbatim>\<open>'!'\<close>, reads a 4-byte header, reads the
  announced number of bytes and stores them in the file. Everything it does is an
  effect on the outside world, so the model records every effect, in program order, as
  a list of events, next to the way the process ends.
\<close>

subsection \<open>Data\<close>

type_synonym byte = "8 word"

text \<open>The namespace built by \<^verbatim>\<open>parser.parse_args()\<close> (lines 7 to 15).\<close>

record args =
  outfile :: string
  ttynode :: string
  verbose :: bool
  baudrate :: int

definition DEFAULT_BAUDRATE :: int where
  "DEFAULT_BAUDRATE = 57600"

text \<open>
  The options \<^verbatim>\<open>-o\<close> and \<^verbatim>\<open>-d\<close> are required, \<^verbatim>\<open>-v\<close> is a flag and \<^verbatim>\<open>-b\<close> is an
  optional integer that falls back on \<^verbatim>\<open>DEFAULT_BAUDRATE\<close>.
\<close>

definition parse_args :: "string \<Rightarrow> string \<Rightarrow> bool \<Rightarrow> int option \<Rightarrow> args" where
  "parse_args opt_o opt_d opt_v opt_b =
     \<lparr>outfile = opt_o, ttynode = opt_d, verbose = opt_v,
      baudrate = (case opt_b of None \<Rightarrow> DEFAULT_BAUDRATE | Some b \<Rightarrow> b)\<rparr>"

text \<open>The exceptions that can leave the script, and the three ways the process ends.\<close>

datatype exn = IndexError | SerialException | OSError

datatype outcome = Finished | SystemExit int | Uncaught exn

text \<open>
  One event per call that touches the outside world. \<open>SerialOpen port baud timeout\<close> is the
  constructor call \<^verbatim>\<open>serial.Serial(port, baud, timeout=...)\<close>, the timeout in seconds;
  \<open>SerRead n bs\<close> is a call \<^verbatim>\<open>ser.read(n)\<close> that returned \<open>bs\<close>.
\<close>

datatype event =
    Print string
  | SerialOpen string int int
  | FileOpen string
  | SerWrite "byte list"
  | SerRead nat "byte list"
  | FileWrite "byte list"
  | FileClose

text \<open>
  An event is a call the script makes, recorded whether or not the call raises; a
  \<open>Print\<close> carries the line printed, without its newline. Whether a call raises is for
  the outside world to decide: whether \<^verbatim>\<open>serial.Serial\<close> returns a port (it raises when
  the device is missing or refuses the settings; the model calls each such failure
  \<open>SerialException\<close>), whether the output file can be created, whether the trigger byte
  can be sent, and what the remote computer sends. The inbound data \<open>rx\<close> is a list of
  bursts; the silence between two bursts outlasts the read timeout. \<open>disk\<close> is the
  content of the files before the script starts. Writes to the (regular) output file and
  reads of an open port are taken to raise nothing.
\<close>

record env =
  dev_ok :: bool
  create_ok :: bool
  tx_ok :: bool
  rx :: "byte list list"
  disk :: "string \<rightharpoonup> byte list"

subsection \<open>The serial port\<close>

text \<open>
  \<^verbatim>\<open>ser.read(n)\<close> belongs to pySerial, not to the script; this is its documented
  behaviour on a port opened with a timeout. It returns as soon as \<open>n\<close> bytes have
  arrived, and returns the bytes it has, fewer than \<open>n\<close> and possibly none, when the
  timeout expires first. \<^verbatim>\<open>ser.read(0)\<close> returns at once. The second component is the
  data still to come.
\<close>

definition ser_read :: "nat \<Rightarrow> byte list list \<Rightarrow> byte list \<times> byte list list" where
  "ser_read n bursts =
     (if n = 0 then ([], bursts)
      else
        (case bursts of
           [] \<Rightarrow> ([], [])
         | b # later \<Rightarrow> if n < length b then (take n b, drop n b # later) else (b, later)))"

subsection \<open>Text formatting\<close>

text \<open>
  Python's \<^verbatim>\<open>str\<close> and \<^verbatim>\<open>%d\<close> on an integer, and \<^verbatim>\<open>hex\<close>: the digits without leading
  zeros, most significant first, in lower case. The script only uses the bases 10 and
  16; the test \<open>base < 2\<close> is there for the recursion to end on every argument.
\<close>

definition digit_char :: "nat \<Rightarrow> char" where
  "digit_char d = ''0123456789abcdef'' ! d"

fun digits :: "nat \<Rightarrow> nat \<Rightarrow> string" where
  "digits base n =
     (if base < 2 \<or> n < base then [digit_char n]
      else digits base (n div base) @ [digit_char (n mod base)])"

declare digits.simps [simp del]

definition str :: "int \<Rightarrow> string" where
  "str i = (if i < 0 then ''-'' @ digits 10 (nat (- i)) else digits 10 (nat i))"

definition hex :: "int \<Rightarrow> string" where
  "hex i = (if i < 0 then ''-0x'' @ digits 16 (nat (- i)) else ''0x'' @ digits 16 (nat i))"

text \<open>
  Reading a number back from its digits, as Python's \<^verbatim>\<open>int(s, base)\<close> does: the means
  to say that a printed number still determines the value printed.
\<close>

definition digit_value :: "char \<Rightarrow> nat" where
  "digit_value c = length (takeWhile (\<lambda>d. d \<noteq> c) ''0123456789abcdef'')"

definition int_of_digits :: "nat \<Rightarrow> string \<Rightarrow> nat" where
  "int_of_digits base s = foldl (\<lambda>acc c. acc * base + digit_value c) 0 s"

subsection \<open>The header (lines 34 to 42)\<close>

text \<open>
  \<^verbatim>\<open>bytes[i]\<close> on a \<^verbatim>\<open>bytes\<close> object is an integer between 0 and 255, and raises
  \<^verbatim>\<open>IndexError\<close> when \<open>i\<close> is not below the length. The script only uses the constant
  indices 0 to 3.
\<close>

definition getitem :: "byte list \<Rightarrow> nat \<Rightarrow> exn + int" where
  "getitem bs i = (if i < length bs then Inr (uint (bs ! i)) else Inl IndexError)"

text \<open>
  Lines 36 to 42, in the order in which the script indexes the reply: a marker other than
  \<^verbatim>\<open>ord('=')\<close>, which is 61, is reported with the byte found; otherwise the number of
  banks, the size of a bank and their product are computed on Python's unbounded
  integers.
\<close>

datatype header = BadMarker int | Header int int int

definition parse_header :: "byte list \<Rightarrow> exn + header" where
  "parse_header bytes =
     (case getitem bytes 0 of
        Inl x \<Rightarrow> Inl x
      | Inr marker \<Rightarrow>
          if marker \<noteq> 61 then Inr (BadMarker marker)
          else
            (case getitem bytes 1 of
               Inl x \<Rightarrow> Inl x
             | Inr bank_num \<Rightarrow>
                 (case getitem bytes 2 of
                    Inl x \<Rightarrow> Inl x
                  | Inr lo \<Rightarrow>
                      (case getitem bytes 3 of
                         Inl x \<Rightarrow> Inl x
                       | Inr hi \<Rightarrow>
                           (let bank_size = lo OR push_bit 8 hi;
                                total' = bank_num * bank_size
                            in Inr (Header bank_num bank_size total'))))))"

subsection \<open>The exchange (lines 27 to 54)\<close>

definition invalid_msg :: "int \<Rightarrow> string" where
  "invalid_msg marker =
     ''Invalid message header from the 8-bit computer: '' @ '' '' @ hex marker"

definition dumping_msg :: "int \<Rightarrow> int \<Rightarrow> int \<Rightarrow> string" where
  "dumping_msg bank_num bank_size total' =
     ''Dumping '' @ str bank_num @ '' banks of '' @ str bank_size @ '' bytes, ''
       @ str total' @ '' bytes in total...''"

definition success_msg :: "string \<Rightarrow> string" where
  "success_msg name = name @ '' successfully dumped''"

text \<open>
  From \<^verbatim>\<open>ser.write(b'!')\<close> to the end of the script, on an open port and an open file
  called \<open>name\<close>. The byte \<^verbatim>\<open>'!'\<close> is 33.
\<close>

definition run :: "string \<Rightarrow> bool \<Rightarrow> byte list list \<Rightarrow> outcome \<times> event list" where
  "run name can_send inbound =
     (if \<not> can_send then (Uncaught SerialException, [SerWrite [33]])
      else
        (case ser_read 4 inbound of
           (bytes, inbound') \<Rightarrow>
             (case parse_header bytes of
                Inl x \<Rightarrow> (Uncaught x, [SerWrite [33], SerRead 4 bytes])
              | Inr (BadMarker marker) \<Rightarrow>
                  (SystemExit 1,
                   [SerWrite [33], SerRead 4 bytes, Print (invalid_msg marker)])
              | Inr (Header bank_num bank_size total') \<Rightarrow>
                  (case ser_read (nat total') inbound' of
                     (data, _) \<Rightarrow>
                       (Finished,
                        [SerWrite [33], SerRead 4 bytes,
                         Print (dumping_msg bank_num bank_size total'),
                         SerRead (nat total') data,
                         FileWrite data,
                         Print (success_msg name),
                         FileClose])))))"

subsection \<open>The whole script\<close>

definition connecting_msg :: "args \<Rightarrow> string" where
  "connecting_msg a =
     ''Connecting to '' @ ttynode a @ '' with baudrate '' @ str (baudrate a)"

text \<open>What the events of a trace put on the wire and into the file, and its reads.\<close>

fun sent :: "event list \<Rightarrow> byte list" where
  "sent [] = []"
| "sent (SerWrite bs # t) = bs @ sent t"
| "sent (_ # t) = sent t"

fun written :: "event list \<Rightarrow> byte list" where
  "written [] = []"
| "written (FileWrite bs # t) = bs @ written t"
| "written (_ # t) = written t"

fun is_SerWrite :: "event \<Rightarrow> bool" where
  "is_SerWrite (SerWrite _) = True"
| "is_SerWrite _ = False"

fun is_SerRead :: "event \<Rightarrow> bool" where
  "is_SerRead (SerRead _ _) = True"
| "is_SerRead _ = False"

fun is_FileWrite :: "event \<Rightarrow> bool" where
  "is_FileWrite (FileWrite _) = True"
| "is_FileWrite _ = False"

fun is_SerialOpen :: "event \<Rightarrow> bool" where
  "is_SerialOpen (SerialOpen _ _ _) = True"
| "is_SerialOpen _ = False"

definition is_chan_io :: "event \<Rightarrow> bool" where
  "is_chan_io ev = (is_SerWrite ev \<or> is_SerRead ev)"

fun timeouts :: "event list \<Rightarrow> int list" where
  "timeouts [] = []"
| "timeouts (SerialOpen _ _ seconds # t) = seconds # timeouts t"
| "timeouts (_ # t) = timeouts t"

text \<open>
  Lines 17 to 54. \<^verbatim>\<open>open(args.outfile, "wb")\<close> creates the file or empties it; at the end
  it holds what was written to it. The third component is the content of the files
  when the process has ended.
\<close>

definition main :: "args \<Rightarrow> env \<Rightarrow> outcome \<times> event list \<times> (string \<rightharpoonup> byte list)" where
  "main a e =
     (let t0 = (if verbose a then [Print (connecting_msg a)] else []);
          t1 = t0 @ [SerialOpen (ttynode a) (baudrate a) (baudrate a)]
      in if \<not> dev_ok e then (Uncaught SerialException, t1, disk e)
         else
           (let t2 = t1 @ [FileOpen (outfile a)]
            in if \<not> create_ok e then (Uncaught OSError, t2, disk e)
               else
                 (case run (outfile a) (tx_ok e) (rx e) of
                    (r, t3) \<Rightarrow> (r, t2 @ t3, (disk e)(outfile a \<mapsto> written t3)))))"

section \<open>Properties\<close>

subsection \<open>Reading from the port\<close>

lemma ser_read_length: "length (fst (ser_read n bursts)) \<le> n"
  by (simp add: ser_read_def split: list.split)

lemma ser_read_concat:
  "fst (ser_read n bursts) @ concat (snd (ser_read n bursts)) = concat bursts"
  by (simp add: ser_read_def split: list.split)

lemma ser_read_zero: "ser_read 0 bursts = ([], bursts)"
  by (simp add: ser_read_def)

lemma ser_read_prefix:
  assumes "ser_read n bursts = (bs, later)"
  shows "take (length bs) (concat bursts) = bs"
    and "drop (length bs) (concat bursts) = concat later"
  using assms by (simp_all flip: ser_read_concat [of n bursts])

subsection \<open>Bytes and integers\<close>

lemma and_255: "(k::int) AND 255 = take_bit 8 k"
  by (simp add: take_bit_eq_mask mask_eq_exp_minus_1)

lemma le16_join: "take_bit 8 (k::int) OR push_bit 8 (drop_bit 8 k) = k"
proof (rule bit_eqI)
  fix n
  show "bit (take_bit 8 k OR push_bit 8 (drop_bit 8 k)) n = bit k n"
    by (cases "n < 8") (simp_all add: bit_simps)
qed

lemma count_byte:
  assumes "0 \<le> k" and "k \<le> 255"
  shows "uint (word_of_int k :: byte) = k"
  using assms by (simp add: uint_word_of_int_eq take_bit_int_eq_self)

lemma low_byte: "uint (word_of_int (k AND 255) :: byte) = take_bit 8 k"
  by (simp add: and_255 uint_word_of_int_eq)

lemma high_byte:
  assumes "0 \<le> k" and "k \<le> 65535"
  shows "take_bit 8 (drop_bit 8 k) = (drop_bit 8 k :: int)"
proof -
  have "0 \<le> drop_bit 8 k" and "drop_bit 8 k < 2 ^ 8"
    using assms by (simp_all add: drop_bit_eq_div)
  then show ?thesis
    by (rule take_bit_int_eq_self)
qed

lemma uint_61: "uint (b :: byte) = 61 \<longleftrightarrow> b = 61"
proof
  assume "uint b = 61"
  then have "word_of_int (uint b) = (word_of_int 61 :: byte)"
    by simp
  then show "b = 61"
    by simp
next
  assume "b = 61"
  then show "uint b = 61"
    by simp
qed

subsection \<open>Printed numbers\<close>

lemma digit_members:
  assumes "d < (16::nat)"
  shows "d \<in> {0, 1, 2, 3, 4, 5, 6, 7, 8, 9, 10, 11, 12, 13, 14, 15}"
  using assms by (simp add: eval_nat_numeral less_Suc_eq)

lemma digit_value_char:
  assumes "d < 16"
  shows "digit_value (digit_char d) = d"
  using digit_members [OF assms]
  by (elim insertE emptyE) (simp_all add: digit_value_def digit_char_def)

lemma int_of_digits_snoc:
  "int_of_digits base (s @ [c]) = int_of_digits base s * base + digit_value c"
  by (simp add: int_of_digits_def)

lemma int_of_digits_digits:
  assumes "2 \<le> base" and "base \<le> 16"
  shows "int_of_digits base (digits base n) = n"
  using assms
proof (induction base n rule: digits.induct)
  case (1 base n)
  show ?case
  proof (cases "n < base")
    case True
    with "1.prems" have "digit_value (digit_char n) = n"
      by (intro digit_value_char) simp
    with True show ?thesis
      by (simp add: digits.simps [of base n] int_of_digits_def)
  next
    case False
    with "1.prems" have step: "int_of_digits base (digits base (n div base)) = n div base"
      by (intro "1.IH") simp_all
    from "1.prems" have "n mod base < base"
      by simp
    with "1.prems" have "n mod base < 16"
      by linarith
    then have "digit_value (digit_char (n mod base)) = n mod base"
      by (rule digit_value_char)
    with False "1.prems" step show ?thesis
      by (simp add: digits.simps [of base n] int_of_digits_snoc)
  qed
qed

lemma hex_byte: "hex (uint (b::byte)) = ''0x'' @ digits 16 (unat b)"
  by (simp add: hex_def)

subsection \<open>The header and the run that follows it\<close>

lemma parse_header_four:
  "parse_header [61, n, lo, hi] =
     Inr (Header (uint n) (uint lo OR push_bit 8 (uint hi))
            (uint n * (uint lo OR push_bit 8 (uint hi))))"
  by (simp add: parse_header_def getitem_def Let_def)

lemma run_header:
  assumes "ser_read 4 inbound = (hdr, inbound')"
    and "parse_header hdr = Inr (Header bank_num bank_size total')"
  shows "run name True inbound =
     (Finished,
      [SerWrite [33], SerRead 4 hdr, Print (dumping_msg bank_num bank_size total'),
       SerRead (nat total') (fst (ser_read (nat total') inbound')),
       FileWrite (fst (ser_read (nat total') inbound')),
       Print (success_msg name), FileClose])"
  using assms by (simp add: run_def split: prod.split)

lemma parse_header_Header:
  assumes "parse_header hdr = Inr (Header bank_num bank_size total')"
  shows "4 \<le> length hdr \<and> hdr ! 0 = 61 \<and> total' = bank_num * bank_size"
  using assms
  by (auto simp add: parse_header_def getitem_def Let_def uint_61 split: if_splits sum.splits)

lemma parse_header_marker:
  assumes "b \<noteq> 61"
  shows "parse_header (b # bs) = Inr (BadMarker (uint b))"
  using assms by (simp add: parse_header_def getitem_def uint_61)

lemma parse_header_short:
  assumes "length hdr < 4"
  shows "parse_header hdr =
    (if hdr \<noteq> [] \<and> hd hdr \<noteq> 61 then Inr (BadMarker (uint (hd hdr))) else Inl IndexError)"
proof (cases hdr)
  case Nil
  then show ?thesis
    by (simp add: parse_header_def getitem_def)
next
  case (Cons b bs)
  show ?thesis
  proof (cases "b = 61")
    case False
    with Cons show ?thesis
      by (simp add: parse_header_marker)
  next
    case True
    with Cons assms show ?thesis
      by (auto simp add: parse_header_def getitem_def Let_def split: sum.splits)
  qed
qed

lemma run_marker:
  assumes "ser_read 4 inbound = (hdr, inbound')"
    and "parse_header hdr = Inr (BadMarker marker)"
  shows "run name True inbound =
     (SystemExit 1, [SerWrite [33], SerRead 4 hdr, Print (invalid_msg marker)])"
  using assms by (simp add: run_def)

lemma run_raise:
  assumes "ser_read 4 inbound = (hdr, inbound')"
    and "parse_header hdr = Inl x"
  shows "run name True inbound = (Uncaught x, [SerWrite [33], SerRead 4 hdr])"
  using assms by (simp add: run_def)

lemma run_shape:
  "\<exists>rest. snd (run name can_send inbound) = SerWrite [33] # rest \<and>
     filter is_SerWrite rest = [] \<and> filter is_SerialOpen rest = [] \<and> timeouts rest = []"
  by (simp add: run_def split: prod.split sum.split header.split)

lemma run_failed:
  assumes "fst (run name can_send inbound) \<noteq> Finished"
  shows "written (snd (run name can_send inbound)) = []"
  using assms by (simp add: run_def split: prod.splits sum.splits header.splits if_splits)

lemma timeouts_append: "timeouts (t @ u) = timeouts t @ timeouts u"
  by (induction t rule: timeouts.induct) simp_all

lemma sent_append: "sent (t @ u) = sent t @ sent u"
  by (induction t rule: sent.induct) simp_all

lemma sent_run: "sent (snd (run name can_send inbound)) = [33]"
  by (simp add: run_def split: prod.split sum.split header.split)

text \<open>The equations that evaluate a run on given bytes.\<close>

lemmas run_eval = run_def ser_read_def parse_header_def getitem_def Let_def
  dumping_msg_def invalid_msg_def success_msg_def str_def hex_def digits.simps digit_char_def

subsection \<open>The claims\<close>

text \<open>
  C1. For a number of banks between 0 and 255 and a bank size between 0 and 65535, when
  the four bytes read are \<open>0x3D\<close>, the number of banks, the low byte and the high byte of
  the bank size, the script takes the bank size to be the little-endian value of bytes 2
  and 3 and the total to be the product of the two, with no wrap-around: this is what it
  prints, and the number of bytes it then asks the port for.
\<close>

theorem header_parsing:
  assumes "0 \<le> bankCount" and "bankCount \<le> 255"
    and "0 \<le> bankSize" and "bankSize \<le> 65535"
    and "hdr = [61, word_of_int bankCount, word_of_int (bankSize AND 255),
                word_of_int (drop_bit 8 bankSize AND 255)]"
    and "ser_read 4 inbound = (hdr, inbound')"
  shows "parse_header hdr = Inr (Header bankCount bankSize (bankCount * bankSize)) \<and>
    (\<exists>data. run name True inbound =
       (Finished,
        [SerWrite [33], SerRead 4 hdr,
         Print (dumping_msg bankCount bankSize (bankCount * bankSize)),
         SerRead (nat (bankCount * bankSize)) data,
         FileWrite data, Print (success_msg name), FileClose]))"
proof -
  have count: "uint (word_of_int bankCount :: byte) = bankCount"
    using assms(1,2) by (rule count_byte)
  have high: "take_bit 8 (drop_bit 8 bankSize) = drop_bit 8 bankSize"
    using assms(3,4) by (rule high_byte)
  have parsed: "parse_header hdr = Inr (Header bankCount bankSize (bankCount * bankSize))"
    unfolding assms(5) parse_header_four count low_byte high le16_join ..
  from run_header [OF assms(6) parsed] parsed show ?thesis
    by blast
qed

theorem header_parsing_witness:
  "parse_header [61, 4, 0, 32] = Inr (Header 4 8192 (4 * 8192)) \<and>
    (\<exists>data. run ''zelda.sav'' True [[61, 4, 0, 32]] =
       (Finished,
        [SerWrite [33], SerRead 4 [61, 4, 0, 32],
         Print (dumping_msg 4 8192 (4 * 8192)),
         SerRead (nat (4 * 8192)) data,
         FileWrite data, Print (success_msg ''zelda.sav''), FileClose]))"
  using header_parsing [of 4 8192 "[61, 4, 0, 32]" "[[61, 4, 0, 32]]" "[]" "''zelda.sav''"]
  by (simp add: ser_read_def)


text \<open>
  C2, as the script has it. When the port delivers fewer payload bytes than the header
  announced before the read times out, the script does not notice: it writes exactly the
  bytes it received to the file, which therefore holds fewer bytes than announced, prints
  the success message and ends normally. No error reports the bytes received against the
  bytes expected.
\<close>

theorem short_bulk_read:
  assumes "ser_read 4 inbound = (hdr, inbound')"
    and "parse_header hdr = Inr (Header bank_num bank_size total')"
    and "ser_read (nat total') inbound' = (data, inbound'')"
    and "length data < nat total'"
  shows "run name True inbound =
      (Finished,
       [SerWrite [33], SerRead 4 hdr, Print (dumping_msg bank_num bank_size total'),
        SerRead (nat total') data, FileWrite data, Print (success_msg name), FileClose]) \<and>
    written (snd (run name True inbound)) = data \<and>
    length (written (snd (run name True inbound))) < nat total' \<and>
    data = take (length data) (drop 4 (concat inbound))"
proof -
  from run_header [OF assms(1,2), of name] assms(3)
  have ran: "run name True inbound =
      (Finished,
       [SerWrite [33], SerRead 4 hdr, Print (dumping_msg bank_num bank_size total'),
        SerRead (nat total') data, FileWrite data, Print (success_msg name), FileClose])"
    by simp
  from parse_header_Header [OF assms(2)] ser_read_length [of 4 inbound] assms(1)
  have "length hdr = 4"
    by simp
  with ser_read_prefix [OF assms(1)] have "drop 4 (concat inbound) = concat inbound'"
    by simp
  with ser_read_prefix(1) [OF assms(3)]
  have "data = take (length data) (drop 4 (concat inbound))"
    by simp
  with ran assms(4) show ?thesis
    by simp
qed

theorem short_bulk_read_witness:
  "run ''save.sav'' True [[61, 1, 2, 0], [170]] =
      (Finished,
       [SerWrite [33], SerRead 4 [61, 1, 2, 0], Print (dumping_msg 1 2 2),
        SerRead 2 [170], FileWrite [170], Print (success_msg ''save.sav''), FileClose]) \<and>
    written (snd (run ''save.sav'' True [[61, 1, 2, 0], [170]])) = [170]"
  using short_bulk_read [of "[[61, 1, 2, 0], [170]]" "[61, 1, 2, 0]" "[[170]]" 1 2 2 "[170]" "[]"
      "''save.sav''"]
  by (simp add: ser_read_def parse_header_def getitem_def)

text \<open>
  C2, as it is stated, fails: the header announces one bank of two bytes, one payload
  byte arrives before the timeout, and the run ends normally after printing that the file
  was successfully dumped.
\<close>

theorem short_bulk_read_counterexample:
  "run ''save.sav'' True [[61, 1, 2, 0], [170]] =
      (Finished,
       [SerWrite [33], SerRead 4 [61, 1, 2, 0],
        Print ''Dumping 1 banks of 2 bytes, 2 bytes in total...'',
        SerRead 2 [170], FileWrite [170],
        Print ''save.sav successfully dumped'', FileClose])"
  by (simp add: run_eval)

text \<open>
  C3. When the first byte of the header is not \<open>0x3D\<close>, the script prints the invalid
  header message, which ends with the byte in hexadecimal, so that the byte can be read
  back from it, and exits with status 1. The header read is the only read from the port,
  and nothing is written to the file.
\<close>

theorem marker_rejection:
  assumes "ser_read 4 inbound = (b # bs, inbound')" and "b \<noteq> 61"
  shows "run name True inbound =
      (SystemExit 1, [SerWrite [33], SerRead 4 (b # bs), Print (invalid_msg (uint b))]) \<and>
    invalid_msg (uint b) =
      ''Invalid message header from the 8-bit computer:  0x'' @ digits 16 (unat b) \<and>
    int_of_digits 16 (digits 16 (unat b)) = unat b \<and>
    filter is_SerRead (snd (run name True inbound)) = [SerRead 4 (b # bs)] \<and>
    filter is_FileWrite (snd (run name True inbound)) = []"
proof -
  have bad: "parse_header (b # bs) = Inr (BadMarker (uint b))"
    using assms(2) by (rule parse_header_marker)
  have stop: "run name True inbound =
      (SystemExit 1, [SerWrite [33], SerRead 4 (b # bs), Print (invalid_msg (uint b))])"
    using assms(1) bad by (rule run_marker)
  have shown: "invalid_msg (uint b) =
      ''Invalid message header from the 8-bit computer:  0x'' @ digits 16 (unat b)"
    by (simp add: invalid_msg_def hex_byte)
  have decoded: "int_of_digits 16 (digits 16 (unat b)) = unat b"
    by (rule int_of_digits_digits) simp_all
  from stop shown decoded show ?thesis
    by simp
qed

theorem marker_rejection_witness:
  "run ''save.sav'' True [[60, 1, 0, 32, 7, 7]] =
      (SystemExit 1,
       [SerWrite [33], SerRead 4 [60, 1, 0, 32],
        Print ''Invalid message header from the 8-bit computer:  0x3c'']) \<and>
    int_of_digits 16 ''3c'' = 60 \<and>
    filter is_SerRead (snd (run ''save.sav'' True [[60, 1, 0, 32, 7, 7]])) =
      [SerRead 4 [60, 1, 0, 32]] \<and>
    filter is_FileWrite (snd (run ''save.sav'' True [[60, 1, 0, 32, 7, 7]])) = []"
  using marker_rejection [of "[[60, 1, 0, 32, 7, 7]]" 60 "[1, 0, 32]" "[[7, 7]]" "''save.sav''"]
  by (simp add: ser_read_def digits.simps digit_char_def)

text \<open>
  C4. On an open port, whatever arrives and whether or not the byte can be sent, the
  first thing the script does with the port is to write the single byte \<open>0x21\<close>; every
  later event is not a write to the port, so the bytes sent are that one byte and every
  read comes after it. In the whole script the port is written to in this way, once, when
  the port and the file could be opened, and not at all otherwise.
\<close>

theorem exact_trigger:
  "(\<exists>rest. snd (run name can_send inbound) = SerWrite [33] # rest \<and>
      filter is_SerWrite rest = []) \<and>
   sent (snd (run name can_send inbound)) = [33] \<and>
   sent (fst (snd (main a e))) = (if dev_ok e \<and> create_ok e then [33] else [])"
proof -
  have "\<exists>rest. snd (run name can_send inbound) = SerWrite [33] # rest \<and>
      filter is_SerWrite rest = []"
    using run_shape [of name can_send inbound] by blast
  moreover have "sent (fst (snd (main a e))) = (if dev_ok e \<and> create_ok e then [33] else [])"
    by (simp add: main_def Let_def case_prod_beta sent_append sent_run)
  ultimately show ?thesis
    by (simp add: sent_run)
qed

theorem exact_trigger_witness:
  "snd (run ''save.sav'' True [[61, 1, 1, 0, 9]]) =
     SerWrite [33] #
       [SerRead 4 [61, 1, 1, 0], Print ''Dumping 1 banks of 1 bytes, 1 bytes in total...'',
        SerRead 1 [9], FileWrite [9], Print ''save.sav successfully dumped'', FileClose] \<and>
   sent (snd (run ''save.sav'' True [[61, 1, 1, 0, 9]])) = [33]"
  using exact_trigger [of "''save.sav''" True "[[61, 1, 1, 0, 9]]"]
  by (simp add: run_eval)


text \<open>
  C5. Whenever a run writes to the file, or reads from the port a second time, the first
  read returned exactly four bytes, the first four bytes of the inbound stream, with the
  marker \<open>0x3D\<close> in front, and the header was parsed from them; the payload is taken from
  the stream after these four bytes; and in the run the header read comes before the
  payload read, which comes before the only write to the file.
\<close>

theorem header_before_payload:
  assumes "FileWrite d \<in> set (snd (run name can_send inbound)) \<or>
    1 < length (filter is_SerRead (snd (run name can_send inbound)))"
  shows "\<exists>hdr bank_num bank_size total' data.
      hdr = take 4 (concat inbound) \<and> length hdr = 4 \<and> hdr ! 0 = 61 \<and>
      parse_header hdr = Inr (Header bank_num bank_size total') \<and>
      data = take (length data) (drop 4 (concat inbound)) \<and>
      run name can_send inbound =
        (Finished,
         [SerWrite [33], SerRead 4 hdr, Print (dumping_msg bank_num bank_size total'),
          SerRead (nat total') data, FileWrite data, Print (success_msg name), FileClose])"
proof -
  obtain hdr inbound' where hdr: "ser_read 4 inbound = (hdr, inbound')"
    by (cases "ser_read 4 inbound")
  have sending: can_send
  proof (rule ccontr)
    assume "\<not> can_send"
    then have "snd (run name can_send inbound) = [SerWrite [33]]"
      by (simp add: run_def)
    with assms show False
      by simp
  qed
  have "\<exists>bank_num bank_size total'. parse_header hdr = Inr (Header bank_num bank_size total')"
  proof (cases "parse_header hdr")
    case (Inl x)
    from run_raise [OF hdr Inl, of name] sending
    have "snd (run name can_send inbound) = [SerWrite [33], SerRead 4 hdr]"
      by simp
    with assms show ?thesis
      by simp
  next
    case (Inr h)
    show ?thesis
    proof (cases h)
      case (BadMarker marker)
      with Inr have "parse_header hdr = Inr (BadMarker marker)"
        by simp
      from run_marker [OF hdr this, of name] sending
      have "snd (run name can_send inbound) =
          [SerWrite [33], SerRead 4 hdr, Print (invalid_msg marker)]"
        by simp
      with assms show ?thesis
        by simp
    next
      case (Header bank_num bank_size total')
      with Inr show ?thesis
        by simp
    qed
  qed
  then obtain bank_num bank_size total'
    where parsed: "parse_header hdr = Inr (Header bank_num bank_size total')"
    by blast
  obtain data inbound'' where data: "ser_read (nat total') inbound' = (data, inbound'')"
    by (cases "ser_read (nat total') inbound'")
  from parsed have "4 \<le> length hdr" and marker: "hdr ! 0 = 61"
    by (simp_all add: parse_header_Header)
  moreover from ser_read_length [of 4 inbound] hdr have "length hdr \<le> 4"
    by simp
  ultimately have len: "length hdr = 4"
    by simp
  from ser_read_prefix [OF hdr] len
  have front: "take 4 (concat inbound) = hdr"
    and rest: "drop 4 (concat inbound) = concat inbound'"
    by simp_all
  from ser_read_prefix(1) [OF data] rest
  have payload: "data = take (length data) (drop 4 (concat inbound))"
    by simp
  from run_header [OF hdr parsed, of name] data sending
  have "run name can_send inbound =
      (Finished,
       [SerWrite [33], SerRead 4 hdr, Print (dumping_msg bank_num bank_size total'),
        SerRead (nat total') data, FileWrite data, Print (success_msg name), FileClose])"
    by simp
  with front len marker parsed payload show ?thesis
    by blast
qed

theorem header_before_payload_witness:
  "\<exists>hdr bank_num bank_size total' data.
      hdr = take 4 (concat [[61, 1, 2, 0, 170, 187]]) \<and> length hdr = 4 \<and> hdr ! 0 = 61 \<and>
      parse_header hdr = Inr (Header bank_num bank_size total') \<and>
      data = take (length data) (drop 4 (concat [[61, 1, 2, 0, 170, 187]])) \<and>
      run ''save.sav'' True [[61, 1, 2, 0, 170, 187]] =
        (Finished,
         [SerWrite [33], SerRead 4 hdr, Print (dumping_msg bank_num bank_size total'),
          SerRead (nat total') data, FileWrite data, Print (success_msg ''save.sav''),
          FileClose])"
proof -
  have "snd (run ''save.sav'' True [[61, 1, 2, 0, 170, 187]]) =
     [SerWrite [33], SerRead 4 [61, 1, 2, 0],
      Print ''Dumping 1 banks of 2 bytes, 2 bytes in total...'',
      SerRead 2 [170, 187], FileWrite [170, 187],
      Print ''save.sav successfully dumped'', FileClose]"
    by (simp add: run_eval)
  then have "FileWrite [170, 187] \<in> set (snd (run ''save.sav'' True [[61, 1, 2, 0, 170, 187]])) \<or>
    1 < length (filter is_SerRead (snd (run ''save.sav'' True [[61, 1, 2, 0, 170, 187]])))"
    by simp
  then show ?thesis
    by (rule header_before_payload)
qed

text \<open>
  C6, as the script has it. When fewer than four header bytes arrive before the timeout,
  the script stops at the header: it reads no payload, writes nothing to the file and
  reports no success. It does not classify the failure as a short read and reports no
  byte counts. When no byte arrived, or the first byte is \<open>0x3D\<close>, it ends with an
  uncaught \<^verbatim>\<open>IndexError\<close> and prints nothing; when a first byte other than \<open>0x3D\<close> arrived,
  it reports an invalid header and exits with status 1.
\<close>

theorem short_header:
  assumes "ser_read 4 inbound = (hdr, inbound')" and "length hdr < 4"
  shows "run name True inbound =
     (if hdr \<noteq> [] \<and> hd hdr \<noteq> 61
      then (SystemExit 1, [SerWrite [33], SerRead 4 hdr, Print (invalid_msg (uint (hd hdr)))])
      else (Uncaught IndexError, [SerWrite [33], SerRead 4 hdr]))"
proof (cases "hdr \<noteq> [] \<and> hd hdr \<noteq> 61")
  case True
  with parse_header_short [OF assms(2)]
  have "parse_header hdr = Inr (BadMarker (uint (hd hdr)))"
    by simp
  from run_marker [OF assms(1) this] True show ?thesis
    by simp
next
  case False
  with parse_header_short [OF assms(2)]
  have "parse_header hdr = Inl IndexError"
    by auto
  from run_raise [OF assms(1) this] False show ?thesis
    by auto
qed

theorem short_header_witness:
  "run ''save.sav'' True [[61, 1, 0]] =
     (Uncaught IndexError, [SerWrite [33], SerRead 4 [61, 1, 0]])"
  using short_header [of "[[61, 1, 0]]" "[61, 1, 0]" "[]" "''save.sav''"]
  by (simp add: ser_read_def)

text \<open>
  C6, as it is stated, fails: with two header bytes, or none, the process dies of an
  uncaught \<^verbatim>\<open>IndexError\<close> without a message, and with the two bytes \<open>0x3E 0x01\<close> the
  failure is reported as an invalid header, with no byte count.
\<close>

theorem short_header_counterexample:
  "run ''save.sav'' True [[61, 1]] =
     (Uncaught IndexError, [SerWrite [33], SerRead 4 [61, 1]]) \<and>
   run ''save.sav'' True [] = (Uncaught IndexError, [SerWrite [33], SerRead 4 []]) \<and>
   run ''save.sav'' True [[62, 1]] =
     (SystemExit 1,
      [SerWrite [33], SerRead 4 [62, 1],
       Print ''Invalid message header from the 8-bit computer:  0x3e''])"
  by (simp add: run_eval)

text \<open>
  C7. When the header announces no bank, or banks of size zero, the total is zero: the
  script asks the port for zero bytes, writes the empty byte string to the file, so that
  the file receives nothing, prints the number of banks, the bank size and the total 0,
  and ends normally. For the header \<open>0x3D 0 0 0\<close> all three numbers printed are 0.
\<close>

theorem zero_size_transfer:
  assumes "ser_read 4 inbound = (hdr, inbound')"
    and "parse_header hdr = Inr (Header bank_num bank_size total')"
    and "bank_num = 0 \<or> bank_size = 0"
  shows "total' = 0 \<and>
    run name True inbound =
      (Finished,
       [SerWrite [33], SerRead 4 hdr, Print (dumping_msg bank_num bank_size 0),
        SerRead 0 [], FileWrite [], Print (success_msg name), FileClose]) \<and>
    written (snd (run name True inbound)) = []"
proof -
  from parse_header_Header [OF assms(2)] assms(3) have zero: "total' = 0"
    by auto
  from run_header [OF assms(1,2), of name] zero show ?thesis
    by (simp add: ser_read_zero)
qed

theorem zero_size_transfer_witness:
  "run ''save.sav'' True [[61, 0, 0, 0]] =
      (Finished,
       [SerWrite [33], SerRead 4 [61, 0, 0, 0],
        Print ''Dumping 0 banks of 0 bytes, 0 bytes in total...'',
        SerRead 0 [], FileWrite [], Print ''save.sav successfully dumped'', FileClose]) \<and>
    written (snd (run ''save.sav'' True [[61, 0, 0, 0]])) = []"
  using zero_size_transfer [of "[[61, 0, 0, 0]]" "[61, 0, 0, 0]" "[]" 0 0 0 "''save.sav''"]
  by (simp add: ser_read_def parse_header_def getitem_def dumping_msg_def str_def
      digits.simps digit_char_def success_msg_def)


text \<open>
  C8. When the header read returns \<open>0x3D 0x02 0x00 0x01\<close> and the next read of 512 bytes
  returns 512 bytes, the run sends \<open>0x21\<close> and nothing else, announces 2 banks of 256
  bytes and 512 bytes in total, writes exactly the 512 bytes to the file, in the order in
  which they arrived, reports success and ends normally.
\<close>

theorem end_to_end:
  assumes "ser_read 4 inbound = ([61, 2, 0, 1], inbound')"
    and "ser_read 512 inbound' = (payload, inbound'')"
    and "length payload = 512"
  shows "run name True inbound =
      (Finished,
       [SerWrite [33], SerRead 4 [61, 2, 0, 1],
        Print ''Dumping 2 banks of 256 bytes, 512 bytes in total...'',
        SerRead 512 payload, FileWrite payload,
        Print (name @ '' successfully dumped''), FileClose]) \<and>
    sent (snd (run name True inbound)) = [33] \<and>
    written (snd (run name True inbound)) = payload"
proof -
  have parsed: "parse_header [61, 2, 0, 1] = Inr (Header 2 256 512)"
    by (simp add: parse_header_four)
  have shown: "dumping_msg 2 256 512 = ''Dumping 2 banks of 256 bytes, 512 bytes in total...''"
    by (simp add: dumping_msg_def str_def digits.simps digit_char_def)
  from run_header [OF assms(1) parsed, of name] assms(2) shown show ?thesis
    by (simp add: success_msg_def)
qed

text \<open>The bytes \<open>0x00\<close> to \<open>0xFF\<close>, twice, as the payload.\<close>

theorem end_to_end_witness:
  "run ''save.sav'' True [[61, 2, 0, 1], map word_of_nat [0..<512]] =
      (Finished,
       [SerWrite [33], SerRead 4 [61, 2, 0, 1],
        Print ''Dumping 2 banks of 256 bytes, 512 bytes in total...'',
        SerRead 512 (map word_of_nat [0..<512]), FileWrite (map word_of_nat [0..<512]),
        Print ''save.sav successfully dumped'', FileClose]) \<and>
    sent (snd (run ''save.sav'' True [[61, 2, 0, 1], map word_of_nat [0..<512]])) = [33] \<and>
    written (snd (run ''save.sav'' True [[61, 2, 0, 1], map word_of_nat [0..<512]])) =
      map word_of_nat [0..<512] \<and>
    map word_of_nat [0..<512] ! 255 = (255 :: byte) \<and>
    map word_of_nat [0..<512] ! 256 = (0 :: byte)"
proof -
  have len: "length (map word_of_nat [0..<512] :: byte list) = 512"
    by (simp only: length_map length_upt)
  have hdr: "ser_read 4 [[61, 2, 0, 1], map word_of_nat [0..<512]] =
      ([61, 2, 0, 1], [map word_of_nat [0..<512]])"
    by (simp add: ser_read_def del: upt_rec_numeral)
  have bulk: "ser_read 512 [map word_of_nat [0..<512] :: byte list] =
      (map word_of_nat [0..<512], [])"
    by (simp add: ser_read_def del: upt_rec_numeral)
  have last: "map word_of_nat [0..<512] ! 255 = (255 :: byte)"
    by (simp del: upt_rec_numeral)
  have wrap: "map word_of_nat [0..<512] ! 256 = (0 :: byte)"
    by (simp del: upt_rec_numeral)
  from end_to_end [OF hdr bulk len, of "''save.sav''"] last wrap show ?thesis
    by (simp del: upt_rec_numeral)
qed

text \<open>
  C9. The script opens the port once, and the timeout it passes, which pySerial takes in
  seconds, is the baud rate: with the default baud rate the read timeout is 57600
  seconds, not one second.
\<close>

theorem timeout_is_baudrate:
  "filter is_SerialOpen (fst (snd (main a e))) =
      [SerialOpen (ttynode a) (baudrate a) (baudrate a)] \<and>
   timeouts (fst (snd (main a e))) = [baudrate a] \<and>
   timeouts (fst (snd (main (parse_args opt_o opt_d opt_v None) e))) = [57600]"
proof -
  obtain rest where shape: "snd (run (outfile a) (tx_ok e) (rx e)) = SerWrite [33] # rest"
    "filter is_SerialOpen rest = []"
    using run_shape [of "outfile a" "tx_ok e" "rx e"] by blast
  have one: "filter is_SerialOpen (fst (snd (main a e))) =
      [SerialOpen (ttynode a) (baudrate a) (baudrate a)]"
    using shape by (simp add: main_def Let_def case_prod_beta)
  have any: "timeouts (fst (snd (main a e))) = [baudrate a]" for a
  proof -
    obtain rest where "snd (run (outfile a) (tx_ok e) (rx e)) = SerWrite [33] # rest"
      "timeouts rest = []"
      using run_shape [of "outfile a" "tx_ok e" "rx e"] by blast
    then show ?thesis
      by (simp add: main_def Let_def timeouts_append case_prod_beta)
  qed
  have "baudrate (parse_args opt_o opt_d opt_v None) = 57600"
    by (simp add: parse_args_def DEFAULT_BAUDRATE_def)
  with one any [of a] any [of "parse_args opt_o opt_d opt_v None"] show ?thesis
    by simp
qed

theorem timeout_is_baudrate_witness:
  "fst (snd (main (parse_args ''save.sav'' ''/dev/ttyUSB0'' False None)
     \<lparr>dev_ok = True, create_ok = True, tx_ok = True, rx = [], disk = Map.empty\<rparr>)) =
     [SerialOpen ''/dev/ttyUSB0'' 57600 57600, FileOpen ''save.sav'',
      SerWrite [33], SerRead 4 []] \<and>
   timeouts (fst (snd (main (parse_args ''save.sav'' ''/dev/ttyUSB0'' False None)
     \<lparr>dev_ok = True, create_ok = True, tx_ok = True, rx = [], disk = Map.empty\<rparr>))) =
     [57600]"
  using timeout_is_baudrate [of "parse_args ''save.sav'' ''/dev/ttyUSB0'' False None"
      "\<lparr>dev_ok = True, create_ok = True, tx_ok = True, rx = [], disk = Map.empty\<rparr>"]
  by (simp add: main_def parse_args_def DEFAULT_BAUDRATE_def run_eval)

text \<open>
  C10. The output file is opened after the port and before anything is written to or read
  from the port: when the port and the file can be opened, the events before the opening
  of the file touch no port, the trigger byte follows it at once, and after the process
  the file exists and holds what the run wrote; it exists and is empty after every run
  that does not end normally, whatever it held before. When the port or the file cannot
  be opened, no byte goes to or comes from the port.
\<close>

theorem sink_opened_first:
  "(dev_ok e \<and> create_ok e \<longrightarrow>
      (\<exists>pre rest. fst (snd (main a e)) = pre @ FileOpen (outfile a) # SerWrite [33] # rest \<and>
         filter is_chan_io pre = [] \<and>
         snd (snd (main a e)) (outfile a) = Some (written rest))) \<and>
   (dev_ok e \<and> create_ok e \<and> fst (main a e) \<noteq> Finished \<longrightarrow>
      snd (snd (main a e)) (outfile a) = Some []) \<and>
   (\<not> (dev_ok e \<and> create_ok e) \<longrightarrow> filter is_chan_io (fst (snd (main a e))) = [])"
proof (intro conjI impI)
  assume ok: "dev_ok e \<and> create_ok e"
  obtain rest where shape: "snd (run (outfile a) (tx_ok e) (rx e)) = SerWrite [33] # rest"
    using run_shape [of "outfile a" "tx_ok e" "rx e"] by blast
  let ?pre = "(if verbose a then [Print (connecting_msg a)] else []) @
    [SerialOpen (ttynode a) (baudrate a) (baudrate a)]"
  from ok shape
  have "fst (snd (main a e)) = ?pre @ FileOpen (outfile a) # SerWrite [33] # rest"
    and "snd (snd (main a e)) (outfile a) = Some (written rest)"
    by (simp_all add: main_def Let_def case_prod_beta)
  moreover have "filter is_chan_io ?pre = []"
    by (simp add: is_chan_io_def)
  ultimately show "\<exists>pre rest.
      fst (snd (main a e)) = pre @ FileOpen (outfile a) # SerWrite [33] # rest \<and>
      filter is_chan_io pre = [] \<and> snd (snd (main a e)) (outfile a) = Some (written rest)"
    by blast
next
  assume "dev_ok e \<and> create_ok e \<and> fst (main a e) \<noteq> Finished"
  then have ok: "dev_ok e" "create_ok e" and failed: "fst (main a e) \<noteq> Finished"
    by simp_all
  from failed ok have "fst (run (outfile a) (tx_ok e) (rx e)) \<noteq> Finished"
    by (simp add: main_def Let_def case_prod_beta)
  then have "written (snd (run (outfile a) (tx_ok e) (rx e))) = []"
    by (rule run_failed)
  with ok show "snd (snd (main a e)) (outfile a) = Some []"
    by (simp add: main_def Let_def case_prod_beta)
next
  assume "\<not> (dev_ok e \<and> create_ok e)"
  then show "filter is_chan_io (fst (snd (main a e))) = []"
    by (auto simp add: main_def Let_def is_chan_io_def case_prod_beta)
qed

text \<open>
  A run that fails at the trigger, on a file that held three bytes, and one that fails at
  the header.
\<close>

theorem sink_opened_first_witness:
  "main \<lparr>outfile = ''save.sav'', ttynode = ''/dev/ttyUSB0'', verbose = False, baudrate = 57600\<rparr>
     \<lparr>dev_ok = True, create_ok = True, tx_ok = False, rx = [],
      disk = [''save.sav'' \<mapsto> [1, 2, 3]]\<rparr> =
   (Uncaught SerialException,
    [SerialOpen ''/dev/ttyUSB0'' 57600 57600, FileOpen ''save.sav'', SerWrite [33]],
    [''save.sav'' \<mapsto> []]) \<and>
   snd (snd (main \<lparr>outfile = ''save.sav'', ttynode = ''/dev/ttyUSB0'', verbose = False,
       baudrate = 57600\<rparr>
     \<lparr>dev_ok = True, create_ok = True, tx_ok = True, rx = [[61, 1]],
      disk = Map.empty\<rparr>)) ''save.sav'' = Some []"
  using sink_opened_first [of
      "\<lparr>dev_ok = True, create_ok = True, tx_ok = False, rx = [],
        disk = [''save.sav'' \<mapsto> [1, 2, 3]]\<rparr>"
      "\<lparr>outfile = ''save.sav'', ttynode = ''/dev/ttyUSB0'', verbose = False, baudrate = 57600\<rparr>"]
    sink_opened_first [of
      "\<lparr>dev_ok = True, create_ok = True, tx_ok = True, rx = [[61, 1]], disk = Map.empty\<rparr>"
      "\<lparr>outfile = ''save.sav'', ttynode = ''/dev/ttyUSB0'', verbose = False, baudrate = 57600\<rparr>"]
  by (simp add: main_def run_eval)


end
